theory Spec2Isabelle
  imports
    Main
    "HOL-Library.Sublist"
    "HOL-Library.Char_ord"
    "HOL-Library.List_Lexorder"
    "HOL-Library.Product_Lexorder"
    "HOL-Library.Multiset"
begin

section \<open>Resume analyzer: skill matching, suggestions and report\<close>

text \<open>
  A shallow embedding of \<^verbatim>\<open>src/.github/workflows/resume_analyzer.py\<close>.

  Python strings are modelled as \<^typ>\<open>string\<close> (lists of 8-bit characters; a
  character outside ASCII stands as its UTF-8 bytes), Python integers as
  \<^typ>\<open>int\<close>, a dictionary as an association list in insertion order (what
  \<^verbatim>\<open>.items()\<close> iterates), exceptions as the left summand of a sum type.

  The methods of \<^verbatim>\<open>ResumeAnalyzer\<close> are well-formed Python and are embedded as
  written. The function \<^verbatim>\<open>main\<close> is not: the call opened on line 95,
  \<^verbatim>\<open>ResumeAnalyzer(\<close>, is never closed, so the file as a whole is rejected by
  the Python compiler. No definition below stands for \<^verbatim>\<open>main\<close> as a whole;
  \<open>load_supplied\<close> is the one expression of it that loads a supplied skills file.

  The file system, the JSON decoder, PyMuPDF and \<^verbatim>\<open>str.lower\<close> are not code of
  the repository; they are parameters (the record \<open>world\<close>, and the argument \<open>lw\<close>
  of \<open>analyze_skills_with\<close>). \<open>lower\<close> is \<^verbatim>\<open>str.lower\<close> on ASCII texts, and
  \<open>analyze_skills\<close> is the method on such texts.
\<close>

subsection \<open>Strings\<close>

text \<open>
  \<^verbatim>\<open>str.lower()\<close> on ASCII texts: \<open>A\<close> .. \<open>Z\<close> (65 .. 90) move to
  \<open>a\<close> .. \<open>z\<close>, every other character stays. On other texts \<^verbatim>\<open>str.lower()\<close>
  does more, and the functions that are to cover them take the lowercasing as an
  argument.
\<close>

definition lower_char :: "char \<Rightarrow> char" where
  "lower_char c =
     (let n = (of_char c :: nat) in if 65 \<le> n \<and> n \<le> 90 then char_of (n + 32) else c)"

definition lower :: "string \<Rightarrow> string" where
  "lower s = map lower_char s"

text \<open>\<^verbatim>\<open>sep.join(xs)\<close>.\<close>

fun join :: "string \<Rightarrow> string list \<Rightarrow> string" where
  "join sep [] = []"
| "join sep [x] = x"
| "join sep (x # y # ys) = x @ sep @ join sep (y # ys)"

subsection \<open>The catalog and the skill counts\<close>

type_synonym catalog = "(string \<times> string list) list"

type_synonym skill_counts = "(string \<times> int) list"

definition DEFAULT_SKILLS :: catalog where
  "DEFAULT_SKILLS =
     [(''Programming'', [''Python'', ''Java'', ''C++'', ''JavaScript'', ''SQL'', ''R'', ''Go'']),
      (''Data'', [''SQL'', ''NoSQL'', ''Spark'', ''Pandas'', ''Tableau'', ''PowerBI'', ''Excel'']),
      (''ML/AI'', [''Machine Learning'', ''Deep Learning'', ''TensorFlow'', ''PyTorch'', ''NLP'']),
      (''DevOps'', [''Docker'', ''Kubernetes'', ''AWS'', ''Azure'', ''CI/CD'', ''Terraform'']),
      (''Soft Skills'', [''Leadership'', ''Communication'', ''Teamwork'', ''Problem Solving''])]"

text \<open>The keys of a dictionary: \<^verbatim>\<open>s in skill_counts\<close> is \<open>s \<in> keys skill_counts\<close>.\<close>

definition keys :: "skill_counts \<Rightarrow> string set" where
  "keys d = set (map fst d)"

text \<open>
  \<^verbatim>\<open>skill_counts[skill] += 1\<close> on a \<^verbatim>\<open>defaultdict(int)\<close>: a key that is present
  keeps its place and its value grows by one, a new key enters last with \<open>0 + 1\<close>.
\<close>

fun incr :: "string \<Rightarrow> skill_counts \<Rightarrow> skill_counts" where
  "incr k [] = [(k, 0 + 1)]"
| "incr k ((k', v) # d) = (if k' = k then (k', v + 1) # d else (k', v) # incr k d)"

subsection \<open>analyze\_skills\<close>

text \<open>
  \<^verbatim>\<open>
  skill_counts = defaultdict(int)
  for category, skills in self.skills_db.items():
      for skill in skills:
          if skill.lower() in text:
              skill_counts[skill] += 1
  return skill_counts
  \<close>
  The inner loop is \<open>analyze_category\<close>, the outer one \<open>analyze_skills\<close>; the
  substring test \<^verbatim>\<open>in\<close> is \<^const>\<open>sublist\<close>.
\<close>

definition analyze_skill :: "string \<Rightarrow> skill_counts \<Rightarrow> string \<Rightarrow> skill_counts" where
  "analyze_skill text d skill = (if sublist (lower skill) text then incr skill d else d)"

definition analyze_category :: "string \<Rightarrow> skill_counts \<Rightarrow> string list \<Rightarrow> skill_counts" where
  "analyze_category text d skills = foldl (analyze_skill text) d skills"

definition analyze_skills :: "catalog \<Rightarrow> string \<Rightarrow> skill_counts" where
  "analyze_skills skills_db text =
     foldl (\<lambda>d (category, skills). analyze_category text d skills) [] skills_db"

text \<open>
  The same method with \<^verbatim>\<open>str.lower\<close> left open: \<open>lw\<close> stands for the lowercasing
  of the Python runtime on all of Unicode. \<open>analyze_skills\<close> is
  \<open>analyze_skills_with lower\<close>, the method on the texts \<open>lower\<close> is right for.
\<close>

definition analyze_skill_with ::
  "(string \<Rightarrow> string) \<Rightarrow> string \<Rightarrow> skill_counts \<Rightarrow> string \<Rightarrow> skill_counts" where
  "analyze_skill_with lw text d skill = (if sublist (lw skill) text then incr skill d else d)"

definition analyze_category_with ::
  "(string \<Rightarrow> string) \<Rightarrow> string \<Rightarrow> skill_counts \<Rightarrow> string list \<Rightarrow> skill_counts" where
  "analyze_category_with lw text d skills = foldl (analyze_skill_with lw text) d skills"

definition analyze_skills_with :: "(string \<Rightarrow> string) \<Rightarrow> catalog \<Rightarrow> string \<Rightarrow> skill_counts" where
  "analyze_skills_with lw skills_db text =
     foldl (\<lambda>d (category, skills). analyze_category_with lw text d skills) [] skills_db"

subsection \<open>suggest\_improvements\<close>

text \<open>
  The two symbols that open a suggestion, as their UTF-8 bytes: U+26A0 U+FE0F (warning
  sign) and U+2139 U+FE0F (information source).
\<close>

definition WARNING_SIGN :: string where
  "WARNING_SIGN = [CHR 0xE2, CHR 0x9A, CHR 0xA0, CHR 0xEF, CHR 0xB8, CHR 0x8F]"

definition INFO_SIGN :: string where
  "INFO_SIGN = [CHR 0xE2, CHR 0x84, CHR 0xB9, CHR 0xEF, CHR 0xB8, CHR 0x8F]"

text \<open>
  The two f-strings of lines 59 and 63; \<open>names\<close> is the list handed to
  \<^verbatim>\<open>', '.join\<close>.
\<close>

definition missing_message :: "string \<Rightarrow> string list \<Rightarrow> string" where
  "missing_message category names =
     WARNING_SIGN @ '' Missing '' @ category @ '' skills. Consider adding: ''
       @ join '', '' names @ ''...''"

definition sparse_message :: "string \<Rightarrow> string list \<Rightarrow> string" where
  "sparse_message category names =
     INFO_SIGN @ '' Few '' @ category @ '' skills. Could add: '' @ join '', '' names"

text \<open>
  \<^verbatim>\<open>
  suggestions = []
  for category, skills in self.skills_db.items():
      found_skills = [s for s in skills if s in skill_counts]
      if not found_skills:
          suggestions.append(f"(!) Missing {category} skills. Consider adding: {', '.join(skills[:3])}...")
      elif len(found_skills) < 2:
          suggestions.append(f"(i) Few {category} skills. Could add: {', '.join([s for s in skills if s not in found_skills][:2])}")
  return suggestions
  \<close>
  One turn of the loop is \<open>suggest_category\<close>.
\<close>

definition suggest_category ::
  "skill_counts \<Rightarrow> string list \<Rightarrow> string \<times> string list \<Rightarrow> string list" where
  "suggest_category skill_counts suggestions c =
     (case c of (category, skills) \<Rightarrow>
        (let found_skills = filter (\<lambda>s. s \<in> keys skill_counts) skills in
         if found_skills = [] then
           suggestions @ [missing_message category (take 3 skills)]
         else if length found_skills < 2 then
           suggestions @
             [sparse_message category (take 2 (filter (\<lambda>s. s \<notin> set found_skills) skills))]
         else suggestions))"

definition suggest_improvements :: "catalog \<Rightarrow> skill_counts \<Rightarrow> string list" where
  "suggest_improvements skills_db skill_counts =
     foldl (suggest_category skill_counts) [] skills_db"

subsection \<open>generate\_report\<close>

text \<open>The decimal form of an integer, as an f-string prints it.\<close>

fun str_nat :: "nat \<Rightarrow> string" where
  "str_nat n =
     (if n < 10 then [char_of (48 + n)]
      else str_nat (n div 10) @ [char_of (48 + n mod 10)])"

declare str_nat.simps [simp del]

definition str_int :: "int \<Rightarrow> string" where
  "str_int i = (if i < 0 then ''-'' @ str_nat (nat (- i)) else str_nat (nat i))"

text \<open>U+2022 (bullet) and U+2705 (check mark), as their UTF-8 bytes.\<close>

definition BULLET :: string where
  "BULLET = [CHR 0xE2, CHR 0x80, CHR 0xA2]"

definition CHECK_MARK :: string where
  "CHECK_MARK = [CHR 0xE2, CHR 0x9C, CHR 0x85]"

definition HEADER :: string where
  "HEADER = ''\<newline>=== SKILL ANALYSIS ===''"

definition NO_SKILLS :: string where
  "NO_SKILLS = ''No skills detected from the database''"

definition SUGGESTIONS_HEADER :: string where
  "SUGGESTIONS_HEADER = ''\<newline>=== SUGGESTIONS ===''"

definition GOOD_JOB :: string where
  "GOOD_JOB =
     ''\<newline>'' @ CHECK_MARK @ '' Good job! Your resume covers diverse skill categories.''"

text \<open>
  \<^verbatim>\<open>
  report = ["\n=== SKILL ANALYSIS ==="]
  if not skill_counts:
      report.append("No skills detected from the database")
  else:
      for skill, count in sorted(skill_counts.items(), key=lambda x: (-x[1], x[0])):
          report.append(f"(*) {skill}: {count} mention{'s' if count > 1 else ''}")
  if suggestions:
      report.append("\n=== SUGGESTIONS ===")
      report.extend(suggestions)
  else:
      report.append("\n(v) Good job! Your resume covers diverse skill categories.")
  return "\n".join(report)
  \<close>
  \<^verbatim>\<open>sorted\<close> is a stable sort by the key, as \<^const>\<open>sort_key\<close> is; pairs compare
  lexicographically, strings by their characters. \<open>report_lines\<close> is the list
  \<^verbatim>\<open>report\<close> as it stands before the final join.
\<close>

definition report_line :: "string \<times> int \<Rightarrow> string" where
  "report_line x =
     (case x of (skill, cnt) \<Rightarrow>
        BULLET @ '' '' @ skill @ '': '' @ str_int cnt @ '' mention''
          @ (if cnt > 1 then ''s'' else ''''))"

definition sorted_items :: "skill_counts \<Rightarrow> skill_counts" where
  "sorted_items skill_counts = sort_key (\<lambda>x. (- snd x, fst x)) skill_counts"

definition skill_lines :: "skill_counts \<Rightarrow> string list" where
  "skill_lines skill_counts =
     (if skill_counts = [] then [NO_SKILLS]
      else map report_line (sorted_items skill_counts))"

definition suggestion_lines :: "string list \<Rightarrow> string list" where
  "suggestion_lines suggestions =
     (if suggestions \<noteq> [] then SUGGESTIONS_HEADER # suggestions else [GOOD_JOB])"

definition report_lines :: "skill_counts \<Rightarrow> string list \<Rightarrow> string list" where
  "report_lines skill_counts suggestions =
     [HEADER] @ skill_lines skill_counts @ suggestion_lines suggestions"

definition generate_report :: "skill_counts \<Rightarrow> string list \<Rightarrow> string" where
  "generate_report skill_counts suggestions =
     join ''\<newline>'' (report_lines skill_counts suggestions)"

subsection \<open>The outside world: files, the JSON decoder, PyMuPDF\<close>

text \<open>
  The exceptions the code raises or lets through, each with its message.
  \<open>FitzError\<close> stands for whatever PyMuPDF raises on a document it cannot read.
\<close>

datatype error =
    FileNotFoundError string
  | JSONDecodeError string
  | FitzError string
  | AttributeError string
  | TypeError string

text \<open>
  A float as \<^verbatim>\<open>json.load\<close> returns it: a finite one is \<open>m\<close> times 2 to the power
  \<open>e\<close>; the decoder also reads \<^verbatim>\<open>Infinity\<close>, \<^verbatim>\<open>-Infinity\<close> and \<^verbatim>\<open>NaN\<close>.
\<close>

datatype pyfloat = Finite int int | Infinite bool | NaN

text \<open>
  A value as \<^verbatim>\<open>json.load\<close> returns it: \<^verbatim>\<open>None\<close>, a bool, an int, a float, a
  string, a list or a dict in the order of the file.
\<close>

datatype json =
    JNull
  | JBool bool
  | JNum int
  | JFloat pyfloat
  | JStr string
  | JArr "json list"
  | JObj "(string \<times> json) list"

text \<open>
  What the code asks of its environment: \<^verbatim>\<open>os.path.exists(p)\<close>; the pages' texts
  that \<^verbatim>\<open>fitz.open(p)\<close> and \<^verbatim>\<open>page.get_text()\<close> yield, or the exception they
  raise; the value that \<^verbatim>\<open>json.load(open(p))\<close> yields, or the exception that
  \<^verbatim>\<open>open\<close> or the decoder raises; and \<^verbatim>\<open>str.lower\<close>, the lowercasing of the
  runtime.
\<close>

record world =
  path_exists :: "string \<Rightarrow> bool"
  fitz_pages :: "string \<Rightarrow> error + string list"
  json_load_open :: "string \<Rightarrow> error + json"
  str_lower :: "string \<Rightarrow> string"

text \<open>The calls a function made to the outside world, in order.\<close>

datatype event = Exists string | FitzOpen string | JsonLoad string

subsection \<open>extract\_text\<close>

text \<open>
  \<^verbatim>\<open>
  if not os.path.exists(pdf_path):
      raise FileNotFoundError(f"File not found: {pdf_path}")
  text = ""
  with fitz.open(pdf_path) as doc:
      for page in doc:
          text += page.get_text()
  return text.lower()
  \<close>
  The result comes with the calls made on the way.
\<close>

definition extract_text :: "world \<Rightarrow> string \<Rightarrow> (error + string) \<times> event list" where
  "extract_text w pdf_path =
     (if \<not> path_exists w pdf_path then
        (Inl (FileNotFoundError (''File not found: '' @ pdf_path)), [Exists pdf_path])
      else
        (case fitz_pages w pdf_path of
           Inl e \<Rightarrow> (Inl e, [Exists pdf_path, FitzOpen pdf_path])
         | Inr pages \<Rightarrow>
             (Inr (str_lower w (foldl (\<lambda>text page. text @ page) [] pages)),
              [Exists pdf_path, FitzOpen pdf_path])))"

subsection \<open>Loading the catalog\<close>


text \<open>A typed catalog as the dict of lists of strings it is in Python.\<close>

definition catalog_json :: "catalog \<Rightarrow> json" where
  "catalog_json skills_db =
     JObj (map (\<lambda>(category, skills). (category, JArr (map JStr skills))) skills_db)"






subsection \<open>analyze\_skills on whatever was loaded\<close>

text \<open>
  The type annotation \<^verbatim>\<open>Dict[str, List[str]]\<close> is not checked at run time. Here is
  the same method on an arbitrary decoded value: \<^verbatim>\<open>.items()\<close> exists on a dict
  only, \<^verbatim>\<open>for skill in skills\<close> walks a list, the characters of a string or the
  keys of a dict, and \<^verbatim>\<open>.lower()\<close> exists on a string only.
\<close>

fun type_name :: "json \<Rightarrow> string" where
  "type_name JNull = ''NoneType''"
| "type_name (JBool b) = ''bool''"
| "type_name (JNum n) = ''int''"
| "type_name (JFloat x) = ''float''"
| "type_name (JStr s) = ''str''"
| "type_name (JArr xs) = ''list''"
| "type_name (JObj kvs) = ''dict''"

definition no_attribute :: "json \<Rightarrow> string \<Rightarrow> error" where
  "no_attribute v name =
     AttributeError
       ([CHR 0x27] @ type_name v @ [CHR 0x27] @ '' object has no attribute ''
          @ [CHR 0x27] @ name @ [CHR 0x27])"

definition not_iterable :: "json \<Rightarrow> error" where
  "not_iterable v =
     TypeError ([CHR 0x27] @ type_name v @ [CHR 0x27] @ '' object is not iterable'')"

fun items :: "json \<Rightarrow> error + (string \<times> json) list" where
  "items (JObj kvs) = Inr kvs"
| "items v = Inl (no_attribute v ''items'')"

text \<open>
  The characters of a string, one string each. A character is a code point, and in
  UTF-8 its first byte is followed by the bytes 128 to 191 that continue it.
\<close>

definition is_continuation :: "char \<Rightarrow> bool" where
  "is_continuation c \<longleftrightarrow> 128 \<le> (of_char c :: nat) \<and> (of_char c :: nat) < 192"

function code_points :: "string \<Rightarrow> string list" where
  "code_points [] = []"
| "code_points (c # cs) =
     (c # takeWhile is_continuation cs) # code_points (dropWhile is_continuation cs)"
  by pat_completeness auto
termination
  by (relation "measure length") (auto simp: length_dropWhile_le less_Suc_eq_le)

fun iter :: "json \<Rightarrow> error + json list" where
  "iter (JArr xs) = Inr xs"
| "iter (JStr s) = Inr (map JStr (code_points s))"
| "iter (JObj kvs) = Inr (map (\<lambda>kv. JStr (fst kv)) kvs)"
| "iter v = Inl (not_iterable v)"

fun analyze_skill_dyn ::
  "(string \<Rightarrow> string) \<Rightarrow> string \<Rightarrow> skill_counts \<Rightarrow> json \<Rightarrow> error + skill_counts" where
  "analyze_skill_dyn lw text d (JStr skill) = Inr (analyze_skill_with lw text d skill)"
| "analyze_skill_dyn lw text d v = Inl (no_attribute v ''lower'')"

fun analyze_category_dyn ::
  "(string \<Rightarrow> string) \<Rightarrow> string \<Rightarrow> skill_counts \<Rightarrow> json list \<Rightarrow> error + skill_counts" where
  "analyze_category_dyn lw text d [] = Inr d"
| "analyze_category_dyn lw text d (skill # skills) =
     (case analyze_skill_dyn lw text d skill of
        Inl e \<Rightarrow> Inl e
      | Inr d' \<Rightarrow> analyze_category_dyn lw text d' skills)"

fun analyze_items_dyn ::
  "(string \<Rightarrow> string) \<Rightarrow> string \<Rightarrow> skill_counts \<Rightarrow> (string \<times> json) list
     \<Rightarrow> error + skill_counts" where
  "analyze_items_dyn lw text d [] = Inr d"
| "analyze_items_dyn lw text d ((category, skills) # rest) =
     (case iter skills of
        Inl e \<Rightarrow> Inl e
      | Inr xs \<Rightarrow>
          (case analyze_category_dyn lw text d xs of
             Inl e \<Rightarrow> Inl e
           | Inr d' \<Rightarrow> analyze_items_dyn lw text d' rest))"

definition analyze_skills_dyn ::
  "(string \<Rightarrow> string) \<Rightarrow> json \<Rightarrow> string \<Rightarrow> error + skill_counts" where
  "analyze_skills_dyn lw skills_db text =
     (case items skills_db of
        Inl e \<Rightarrow> Inl e
      | Inr kvs \<Rightarrow> analyze_items_dyn lw text [] kvs)"


section \<open>Notions of the specification\<close>

text \<open>All the skill names a catalog lists, category after category.\<close>

definition listed :: "catalog \<Rightarrow> string list" where
  "listed skills_db = concat (map snd skills_db)"

text \<open>
  The number a dictionary holds for a key, 0 for a key it does not hold (what the
  \<^verbatim>\<open>defaultdict(int)\<close> answers).
\<close>

definition count_of :: "skill_counts \<Rightarrow> string \<Rightarrow> int" where
  "count_of d k = (case map_of d k of None \<Rightarrow> 0 | Some v \<Rightarrow> v)"

text \<open>
  How often a list of skills names \<open>s\<close>, if the lowercase form of \<open>s\<close> occurs in the
  text at all.
\<close>

definition hits :: "(string \<Rightarrow> string) \<Rightarrow> string \<Rightarrow> string list \<Rightarrow> string \<Rightarrow> nat" where
  "hits lw text skills s = (if sublist (lw s) text then count_list skills s else 0)"

text \<open>
  The invariant of both loops of \<open>analyze_skills\<close>: a key is held exactly when it was
  held before or has been hit, and each hit added one to its value.
\<close>

definition tracks ::
  "(string \<Rightarrow> string) \<Rightarrow> string \<Rightarrow> skill_counts \<Rightarrow> string list \<Rightarrow> skill_counts \<Rightarrow> bool" where
  "tracks lw text d0 skills d \<longleftrightarrow>
     (\<forall>s. map_of d s =
        (if hits lw text skills s = 0 then map_of d0 s
         else Some (count_of d0 s + int (hits lw text skills s))))"

text \<open>
  A name is a substring of a text when case is ignored, if some part of the text is the
  name up to case, that is, has the lowercase form of the name.
\<close>

definition ci_substring :: "(string \<Rightarrow> string) \<Rightarrow> string \<Rightarrow> string \<Rightarrow> bool" where
  "ci_substring lw s T \<longleftrightarrow> (\<exists>u \<in> set (sublists T). lw u = lw s)"

text \<open>
  The suggestion policy in the words of the specification: how many of a category's
  skills are keys of the counts, which are not, and what the category gets. The
  messages are spelled out, the names in them separated by a comma and a space.
\<close>

definition present :: "skill_counts \<Rightarrow> string list \<Rightarrow> nat" where
  "present skill_counts skills =
     length (filter (\<lambda>s. s \<in> fst ` set skill_counts) skills)"

definition absent :: "skill_counts \<Rightarrow> string list \<Rightarrow> string list" where
  "absent skill_counts skills = filter (\<lambda>s. s \<notin> fst ` set skill_counts) skills"

definition comma_separated :: "string list \<Rightarrow> string" where
  "comma_separated names =
     (case names of [] \<Rightarrow> [] | n # ns \<Rightarrow> n @ concat (map (\<lambda>m. '', '' @ m) ns))"

definition category_suggestion :: "skill_counts \<Rightarrow> string \<times> string list \<Rightarrow> string list" where
  "category_suggestion skill_counts c =
     (case c of (category, skills) \<Rightarrow>
        if present skill_counts skills = 0 then
          [[CHR 0xE2, CHR 0x9A, CHR 0xA0, CHR 0xEF, CHR 0xB8, CHR 0x8F]
             @ '' Missing '' @ category @ '' skills. Consider adding: ''
             @ comma_separated (take 3 skills) @ ''...'']
        else if present skill_counts skills = 1 then
          [[CHR 0xE2, CHR 0x84, CHR 0xB9, CHR 0xEF, CHR 0xB8, CHR 0x8F]
             @ '' Few '' @ category @ '' skills. Could add: ''
             @ comma_separated (take 2 (absent skill_counts skills))]
        else [])"

text \<open>
  The order of the report in the words of the specification: the larger count first,
  and for equal counts the smaller name first.
\<close>

definition report_order :: "string \<times> int \<Rightarrow> string \<times> int \<Rightarrow> bool" where
  "report_order x y \<longleftrightarrow> snd y < snd x \<or> (snd x = snd y \<and> fst x \<le> fst y)"

text \<open>
  The number a string of decimal digits stands for, and the decimal form of a number:
  digits only, at least one, no zero in front of another digit.
\<close>

definition decimal_value :: "string \<Rightarrow> nat" where
  "decimal_value s = foldl (\<lambda>a c. 10 * a + (of_char c - 48)) 0 s"

definition is_digit :: "char \<Rightarrow> bool" where
  "is_digit c \<longleftrightarrow> 48 \<le> (of_char c :: nat) \<and> (of_char c :: nat) \<le> 57"

definition decimal_form :: "string \<Rightarrow> nat \<Rightarrow> bool" where
  "decimal_form s k \<longleftrightarrow>
     s \<noteq> [] \<and> list_all is_digit s \<and> decimal_value s = k \<and>
     (hd s = CHR ''0'' \<longrightarrow> s = ''0'')"

text \<open>
  The report as one string, spelled out: every line of the report but the first comes
  after a newline; a skill's line is the bullet, the name, a colon, the count in decimal
  and \<open>mention\<close> or \<open>mentions\<close>.
\<close>

definition rendered_skill :: "string \<times> int \<Rightarrow> string" where
  "rendered_skill x =
     ''\<newline>'' @ [CHR 0xE2, CHR 0x80, CHR 0xA2] @ '' '' @ fst x @ '': '' @ str_int (snd x)
       @ (if 1 < snd x then '' mentions'' else '' mention'')"

definition rendered_suggestions :: "string list \<Rightarrow> string" where
  "rendered_suggestions suggestions =
     (if suggestions = [] then
        ''\<newline>\<newline>'' @ [CHR 0xE2, CHR 0x9C, CHR 0x85]
          @ '' Good job! Your resume covers diverse skill categories.''
      else
        ''\<newline>\<newline>=== SUGGESTIONS ==='' @ concat (map (\<lambda>l. ''\<newline>'' @ l) suggestions))"

text \<open>
  The shape the specification asks of a skills file: a mapping from category to a list
  of skill names.
\<close>

fun is_skill_name :: "json \<Rightarrow> bool" where
  "is_skill_name (JStr s) = True"
| "is_skill_name v = False"

fun is_skill_list :: "json \<Rightarrow> bool" where
  "is_skill_list (JArr xs) = list_all is_skill_name xs"
| "is_skill_list v = False"

fun is_catalog :: "json \<Rightarrow> bool" where
  "is_catalog (JObj kvs) = list_all (\<lambda>kv. is_skill_list (snd kv)) kvs"
| "is_catalog v = False"

text \<open>
  The shapes the analysis gets through: a dict, each value of which is a list of strings,
  a string or a dict. They are more than the catalogs.
\<close>

fun walkable :: "json \<Rightarrow> bool" where
  "walkable (JArr xs) = list_all is_skill_name xs"
| "walkable (JStr s) = True"
| "walkable (JObj kvs) = True"
| "walkable v = False"

fun analyzable :: "json \<Rightarrow> bool" where
  "analyzable (JObj kvs) = list_all (\<lambda>kv. walkable (snd kv)) kvs"
| "analyzable v = False"


subsection \<open>An environment to run the functions in\<close>

text \<open>
  One file system: \<^verbatim>\<open>resume.pdf\<close> exists and has two pages,
  \<^verbatim>\<open>skills.json\<close> exists and holds the JSON text \<^verbatim>\<open>["Python"]\<close>, a list and
  not a mapping; no other path exists. Its texts are ASCII, and its lowercasing is
  \<open>lower\<close>.
\<close>

definition example_world :: world where
  "example_world =
     \<lparr>path_exists = (\<lambda>p. p = ''resume.pdf'' \<or> p = ''skills.json''),
      fitz_pages =
        (\<lambda>p. if p = ''resume.pdf'' then Inr [''Python Developer'', '' SQL and Go'']
             else Inl (FitzError (''cannot open '' @ p))),
      json_load_open =
        (\<lambda>p. if p = ''skills.json'' then Inr (JArr [JStr ''Python''])
             else Inl (FileNotFoundError (''No such file or directory: '' @ p))),
      str_lower = lower\<rparr>"

section \<open>Properties\<close>

subsection \<open>Strings\<close>

lemma lower_char_idem: "lower_char (lower_char c) = lower_char c"
proof -
  have "of_char (char_of (of_char c + 32 :: nat)) = (of_char c + 32 :: nat)"
    if "(of_char c :: nat) \<le> 90"
    using that by (simp add: of_char_of)
  then show ?thesis
    by (auto simp: lower_char_def Let_def)
qed

lemma lower_idem: "lower (lower s) = lower s"
  by (simp add: lower_def lower_char_idem)

lemma lower_append: "lower (xs @ ys) = lower xs @ lower ys"
  by (simp add: lower_def)

lemma lower_Nil_iff: "lower s = [] \<longleftrightarrow> s = []"
  by (simp add: lower_def)

lemma sublist_lower: "sublist u t \<Longrightarrow> sublist (lower u) (lower t)"
proof -
  assume "sublist u t"
  then obtain ps ss where "t = ps @ u @ ss"
    by (auto simp: sublist_def)
  then have "lower t = lower ps @ lower u @ lower ss"
    by (simp add: lower_append)
  then show ?thesis
    unfolding sublist_def by blast
qed

lemma sublist_lower_text: "sublist (lower s) t \<Longrightarrow> sublist (lower s) (lower t)"
  using sublist_lower [of "lower s" t] by (simp add: lower_idem)

subsection \<open>The dictionary update\<close>

lemma map_of_incr:
  "map_of (incr k d) k' =
     (if k' = k then Some (case map_of d k of None \<Rightarrow> 1 | Some v \<Rightarrow> v + 1) else map_of d k')"
  by (induction d) auto

lemma map_fst_incr:
  "map fst (incr k d) = (if k \<in> set (map fst d) then map fst d else map fst d @ [k])"
proof (induction d)
  case Nil
  then show ?case by simp
next
  case (Cons p d)
  obtain k' v where p: "p = (k', v)"
    by (cases p)
  show ?case
  proof (cases "k' = k")
    case True
    then show ?thesis by (simp add: p)
  next
    case False
    with Cons show ?thesis by (simp add: p)
  qed
qed

lemma keys_incr: "keys (incr k d) = insert k (keys d)"
  by (auto simp: keys_def map_fst_incr)

lemma distinct_incr: "distinct (map fst d) \<Longrightarrow> distinct (map fst (incr k d))"
  by (simp add: map_fst_incr)

lemma count_list_pos: "0 < count_list xs x \<longleftrightarrow> x \<in> set xs"
  using count_list_0_iff [of xs x] by auto

subsection \<open>What analyze\_skills computes\<close>

lemma hits_Nil: "hits lw text [] s = 0"
  by (simp add: hits_def)

lemma hits_append: "hits lw text (xs @ ys) s = hits lw text xs s + hits lw text ys s"
  by (simp add: hits_def)

lemma map_of_analyze_skill_with:
  "map_of (analyze_skill_with lw text d skill) s =
     (if s = skill \<and> sublist (lw skill) text
      then Some (case map_of d skill of None \<Rightarrow> 1 | Some v \<Rightarrow> v + 1)
      else map_of d s)"
  by (simp add: analyze_skill_with_def map_of_incr)

lemma tracks_refl: "tracks lw text d [] d"
  by (simp add: tracks_def hits_Nil)

lemma tracks_step:
  assumes "tracks lw text d0 skills d"
  shows "tracks lw text d0 (skills @ [skill]) (analyze_skill_with lw text d skill)"
  unfolding tracks_def
proof
  fix s
  have d: "map_of d s =
      (if hits lw text skills s = 0 then map_of d0 s
       else Some (count_of d0 s + int (hits lw text skills s)))" for s
    using assms by (simp add: tracks_def)
  show "map_of (analyze_skill_with lw text d skill) s =
      (if hits lw text (skills @ [skill]) s = 0 then map_of d0 s
       else Some (count_of d0 s + int (hits lw text (skills @ [skill]) s)))"
  proof (cases "s = skill \<and> sublist (lw skill) text")
    case True
    then have h: "hits lw text (skills @ [skill]) s = hits lw text skills s + 1"
      by (simp add: hits_def)
    show ?thesis
    proof (cases "hits lw text skills s = 0")
      case z: True
      with True h d [of skill] show ?thesis
        by (simp add: map_of_analyze_skill_with count_of_def split: option.splits)
    next
      case nz: False
      with True h d [of skill] show ?thesis
        by (simp add: map_of_analyze_skill_with count_of_def)
    qed
  next
    case False
    then have h: "hits lw text (skills @ [skill]) s = hits lw text skills s"
      by (auto simp: hits_def)
    from False have "map_of (analyze_skill_with lw text d skill) s = map_of d s"
      by (auto simp: map_of_analyze_skill_with)
    with h d [of s] show ?thesis
      by simp
  qed
qed

lemma tracks_analyze_category_with:
  "tracks lw text d0 seen d \<Longrightarrow> tracks lw text d0 (seen @ skills) (analyze_category_with lw text d skills)"
proof (induction skills arbitrary: seen d)
  case Nil
  then show ?case by (simp add: analyze_category_with_def)
next
  case (Cons skill skills)
  from Cons.prems have "tracks lw text d0 (seen @ [skill]) (analyze_skill_with lw text d skill)"
    by (rule tracks_step)
  from Cons.IH [OF this] show ?case
    by (simp add: analyze_category_with_def)
qed

lemma tracks_analyze_skills_with:
  "tracks lw text [] seen d \<Longrightarrow>
   tracks lw text [] (seen @ listed skills_db)
     (foldl (\<lambda>d (category, skills). analyze_category_with lw text d skills) d skills_db)"
proof (induction skills_db arbitrary: seen d)
  case Nil
  then show ?case by (simp add: listed_def)
next
  case (Cons c skills_db)
  obtain category skills where c: "c = (category, skills)"
    by (cases c)
  from Cons.prems have "tracks lw text [] (seen @ skills) (analyze_category_with lw text d skills)"
    by (rule tracks_analyze_category_with)
  from Cons.IH [OF this] show ?case
    by (simp add: c listed_def)
qed

lemma map_of_analyze_skills_with:
  "map_of (analyze_skills_with lw skills_db text) s =
     (if hits lw text (listed skills_db) s = 0 then None
      else Some (int (hits lw text (listed skills_db) s)))"
proof -
  have "tracks lw text [] ([] @ listed skills_db) (analyze_skills_with lw skills_db text)"
    unfolding analyze_skills_with_def by (rule tracks_analyze_skills_with) (rule tracks_refl)
  then show ?thesis
    by (simp add: tracks_def count_of_def)
qed

lemma keys_analyze_skills_with:
  "keys (analyze_skills_with lw skills_db text) =
     {s \<in> set (listed skills_db). sublist (lw s) text}"
proof -
  have "s \<in> keys (analyze_skills_with lw skills_db text) \<longleftrightarrow>
      s \<in> set (listed skills_db) \<and> sublist (lw s) text" for s
  proof -
    have "s \<in> keys (analyze_skills_with lw skills_db text) \<longleftrightarrow>
        map_of (analyze_skills_with lw skills_db text) s \<noteq> None"
      by (simp add: keys_def map_of_eq_None_iff)
    also have "\<dots> \<longleftrightarrow> hits lw text (listed skills_db) s \<noteq> 0"
      by (simp add: map_of_analyze_skills_with)
    also have "\<dots> \<longleftrightarrow> s \<in> set (listed skills_db) \<and> sublist (lw s) text"
      by (auto simp: hits_def count_list_pos)
    finally show ?thesis .
  qed
  then show ?thesis by blast
qed

text \<open>\<open>analyze_skills\<close> is the method at the lowercasing \<open>lower\<close>.\<close>

lemma analyze_skill_with_lower: "analyze_skill_with lower = analyze_skill"
  by (intro ext) (simp add: analyze_skill_with_def analyze_skill_def)

lemma analyze_category_with_lower: "analyze_category_with lower = analyze_category"
  by (intro ext) (simp add: analyze_category_with_def analyze_category_def analyze_skill_with_lower)

lemma analyze_skills_with_lower: "analyze_skills_with lower = analyze_skills"
  by (intro ext) (simp add: analyze_skills_with_def analyze_skills_def analyze_category_with_lower)

lemma keys_analyze_skills:
  "keys (analyze_skills skills_db text) =
     {s \<in> set (listed skills_db). sublist (lower s) text}"
  using keys_analyze_skills_with [of lower skills_db "text"]
  by (simp add: analyze_skills_with_lower)

text \<open>
  What the method holds for a name, whatever the lowercasing: nothing, unless the catalog
  lists the name and its lowercase form occurs in the text, and then the number of
  times the catalog lists it, all categories together.
\<close>

lemma map_of_analyze_skills_listings:
  "map_of (analyze_skills_with lw skills_db text) s =
     (if s \<in> set (listed skills_db) \<and> sublist (lw s) text
      then Some (int (count_list (listed skills_db) s)) else None)"
  by (auto simp: map_of_analyze_skills_with hits_def count_list_0_iff count_list_pos)

subsection \<open>Claims about analyze\_skills\<close>

text \<open>
  Claim C1 fails on the code. The built-in catalog lists \<open>SQL\<close> under
  \<open>Programming\<close> and under \<open>Data\<close>, and on a text that mentions it once the method
  holds 2 for it, a count that is neither 0 nor 1 and not the number of mentions the
  docstring of the method promises.
\<close>

theorem analyze_skills_counts_twice: "analyze_skills DEFAULT_SKILLS ''sql'' = [(''SQL'', 2)]"
  by code_simp

text \<open>
  Claim C5, for every lowercasing \<open>lw\<close> that leaves a lowercase form as it is, as
  \<^verbatim>\<open>str.lower\<close> does on all of Unicode. For every catalog \<open>C\<close>, every text \<open>T\<close>
  and every skill name \<open>s\<close> (listed in \<open>C\<close> or not): if \<open>s\<close> is not a substring of
  \<open>T\<close> when case is ignored, that is, if no part of \<open>T\<close> has the lowercase form of
  \<open>s\<close>, then \<open>s\<close> is not a key of the result of \<open>analyze_skills\<close> on \<open>T\<close>.
\<close>

theorem analyze_skills_no_key_without_substring:
  "(\<forall>x. lw (lw x) = lw x) \<Longrightarrow> \<not> ci_substring lw s T \<Longrightarrow>
     s \<notin> fst ` set (analyze_skills_with lw C T)"
proof
  assume idem: "\<forall>x. lw (lw x) = lw x"
  assume no: "\<not> ci_substring lw s T"
  assume "s \<in> fst ` set (analyze_skills_with lw C T)"
  then have "s \<in> keys (analyze_skills_with lw C T)"
    by (simp add: keys_def)
  then have "sublist (lw s) T"
    by (simp add: keys_analyze_skills_with)
  moreover from idem have "lw (lw s) = lw s"
    by simp
  ultimately have "ci_substring lw s T"
    unfolding ci_substring_def by (intro bexI [of _ "lw s"]) simp_all
  with no show False
    by simp
qed

text \<open>
  Claim C5 at the lowercasing of the ASCII letters, with the catalog and the text of the
  second scenario of the specification.
\<close>

theorem analyze_skills_no_key_without_substring_witness:
  "(\<forall>x. lower (lower x) = lower x) \<and>
   \<not> ci_substring lower ''Python'' ''I write code'' \<and>
   ''Python'' \<in> set (listed [(''Programming'', [''Python'', ''Go''])]) \<and>
   ''Python'' \<notin> fst ` set (analyze_skills_with lower
      [(''Programming'', [''Python'', ''Go''])] ''I write code'')"
proof -
  have i: "\<forall>x. lower (lower x) = lower x"
    by (simp add: lower_idem)
  have h: "\<not> ci_substring lower ''Python'' ''I write code''"
    by code_simp
  have l: "''Python'' \<in> set (listed [(''Programming'', [''Python'', ''Go''])])"
    by code_simp
  from analyze_skills_no_key_without_substring [OF i h] i h l show ?thesis
    by (simp only: simp_thms)
qed

text \<open>
  Ignoring case this way finds a name written in any case: \<open>PYTHON\<close> in the text is
  \<open>Python\<close> up to case, though the method, which lowercases the name only, does not
  count it there.
\<close>

lemma ci_substring_example:
  "ci_substring lower ''Python'' ''I LOVE PYTHON'' \<and>
   analyze_skills [(''Programming'', [''Python''])] ''I LOVE PYTHON'' = []"
  by code_simp

text \<open>
  Claim C8, as amended. On the empty text \<open>analyze_skills\<close> returns the empty
  mapping exactly for the catalogs that do not list the empty string as a skill name:
  the empty string is a substring of every text, the empty one included.
\<close>

theorem analyze_skills_empty_text:
  "analyze_skills C [] = [] \<longleftrightarrow> [] \<notin> set (listed C)"
proof -
  have "keys (analyze_skills C []) = {s \<in> set (listed C). s = []}"
    by (simp add: keys_analyze_skills lower_Nil_iff)
  then have "keys (analyze_skills C []) = {} \<longleftrightarrow> [] \<notin> set (listed C)"
    by auto
  then show ?thesis
    by (simp add: keys_def)
qed

text \<open>
  Claim C8 as stated fails at a catalog whose one category lists the empty string.
\<close>

theorem analyze_skills_empty_text_counterexample:
  "analyze_skills [(''Misc'', [''''])] '''' = [('''', 1)]"
  by code_simp

text \<open>
  The amended claim C8 at the built-in catalog.
\<close>

theorem analyze_skills_empty_text_witness:
  "analyze_skills DEFAULT_SKILLS [] = []"
proof -
  have "[] \<notin> set (listed DEFAULT_SKILLS)"
    by code_simp
  with analyze_skills_empty_text [of DEFAULT_SKILLS] show ?thesis
    by simp
qed

text \<open>
  The same holds whatever the lowercasing, as long as only the empty string has the
  empty lowercase form, as with \<^verbatim>\<open>str.lower\<close>.
\<close>

lemma analyze_skills_with_empty_text:
  "(\<forall>s. lw s = [] \<longleftrightarrow> s = []) \<Longrightarrow>
     (analyze_skills_with lw C [] = [] \<longleftrightarrow> [] \<notin> set (listed C))"
proof -
  assume "\<forall>s. lw s = [] \<longleftrightarrow> s = []"
  then have "keys (analyze_skills_with lw C []) = {s \<in> set (listed C). s = []}"
    by (simp add: keys_analyze_skills_with)
  then have "keys (analyze_skills_with lw C []) = {} \<longleftrightarrow> [] \<notin> set (listed C)"
    by auto
  then show ?thesis
    by (simp add: keys_def)
qed

text \<open>
  The same for the other reading of a substring when case is ignored, the lowercase form
  of the name in the lowercase form of the text: it asks of the lowercasing that it
  keeps the lowercase forms it finds in a text, as \<open>lower\<close> does.
\<close>

lemma analyze_skills_no_key_lowered_text:
  "(\<forall>u t. sublist (lw u) t \<longrightarrow> sublist (lw u) (lw t)) \<Longrightarrow> \<not> sublist (lw s) (lw T) \<Longrightarrow>
     s \<notin> keys (analyze_skills_with lw C T)"
  by (auto simp: keys_analyze_skills_with)

lemma lower_keeps_lowercase_forms: "\<forall>u t. sublist (lower u) t \<longrightarrow> sublist (lower u) (lower t)"
  by (simp add: sublist_lower_text)

subsection \<open>Claims about suggest\_improvements\<close>

lemma join_Cons: "join sep (x # xs) = x @ concat (map (\<lambda>y. sep @ y) xs)"
  by (induction xs arbitrary: x) simp_all

lemma join_comma_separated: "join sep names =
    (case names of [] \<Rightarrow> [] | n # ns \<Rightarrow> n @ concat (map (\<lambda>m. sep @ m) ns))"
  by (cases names) (simp_all add: join_Cons)

lemma sublist_concat_map:
  "n \<in> set ns \<Longrightarrow> sublist n (concat (map (\<lambda>m. sep @ m) ns))"
proof (induction ns)
  case Nil
  then show ?case by simp
next
  case (Cons m ns)
  show ?case
  proof (cases "n = m")
    case True
    have "sublist m (sep @ m @ concat (map (\<lambda>m. sep @ m) ns))"
      by (rule sublist_appendI)
    with True show ?thesis by simp
  next
    case False
    with Cons have "sublist n (concat (map (\<lambda>m. sep @ m) ns))"
      by simp
    then have "sublist n ((sep @ m) @ concat (map (\<lambda>m. sep @ m) ns))"
      by (simp only: sublist_append simp_thms)
    then show ?thesis by simp
  qed
qed

lemma comma_separated_Cons:
  "comma_separated (m # ns) = m @ concat (map (\<lambda>m. '', '' @ m) ns)"
  by (simp only: comma_separated_def list.case)

lemma sublist_comma_separated: "n \<in> set names \<Longrightarrow> sublist n (comma_separated names)"
proof (cases names)
  case Nil
  assume "n \<in> set names"
  with Nil show ?thesis by simp
next
  case (Cons m ns)
  assume n: "n \<in> set names"
  have "sublist n (m @ concat (map (\<lambda>m. '', '' @ m) ns))"
  proof (cases "n = m")
    case True
    have "sublist m (m @ concat (map (\<lambda>m. '', '' @ m) ns))"
      by (rule sublist_append_rightI)
    with True show ?thesis
      by (simp only:)
  next
    case False
    with n Cons have "n \<in> set ns"
      by simp
    then have "sublist n (concat (map (\<lambda>m. '', '' @ m) ns))"
      by (rule sublist_concat_map)
    then show ?thesis
      by (simp only: sublist_append simp_thms)
  qed
  then show ?thesis
    by (simp only: Cons comma_separated_Cons)
qed

lemma found_Nil_iff: "filter (\<lambda>s. s \<in> keys d) skills = [] \<longleftrightarrow> present d skills = 0"
  by (simp add: present_def keys_def)

lemma not_found_eq_absent:
  "filter (\<lambda>s. s \<notin> set (filter (\<lambda>s. s \<in> keys d) skills)) skills = absent d skills"
  unfolding absent_def keys_def by (rule filter_cong) auto

lemma missing_message_spelled:
  "missing_message category names =
     [CHR 0xE2, CHR 0x9A, CHR 0xA0, CHR 0xEF, CHR 0xB8, CHR 0x8F]
       @ '' Missing '' @ category @ '' skills. Consider adding: ''
       @ comma_separated names @ ''...''"
  by (simp add: missing_message_def WARNING_SIGN_def comma_separated_def
      join_comma_separated [of "'', ''" names])

lemma sparse_message_spelled:
  "sparse_message category names =
     [CHR 0xE2, CHR 0x84, CHR 0xB9, CHR 0xEF, CHR 0xB8, CHR 0x8F]
       @ '' Few '' @ category @ '' skills. Could add: '' @ comma_separated names"
  by (simp add: sparse_message_def INFO_SIGN_def comma_separated_def
      join_comma_separated [of "'', ''" names])

lemma suggest_category_eq:
  "suggest_category d suggestions c = suggestions @ category_suggestion d c"
proof (cases c)
  case (Pair category skills)
  consider "present d skills = 0" | "present d skills = 1" | "2 \<le> present d skills"
    by linarith
  then show ?thesis
  proof cases
    case 1
    then show ?thesis
      by (simp add: Pair suggest_category_def category_suggestion_def found_Nil_iff
          missing_message_spelled)
  next
    case 2
    then have "length (filter (\<lambda>s. s \<in> keys d) skills) = 1"
      by (simp add: present_def keys_def)
    with 2 show ?thesis
      by (simp add: Pair suggest_category_def category_suggestion_def found_Nil_iff
          not_found_eq_absent sparse_message_spelled Let_def del: set_filter)
  next
    case 3
    then have "2 \<le> length (filter (\<lambda>s. s \<in> keys d) skills)"
      by (simp add: present_def keys_def)
    with 3 show ?thesis
      by (auto simp: Pair suggest_category_def category_suggestion_def Let_def)
  qed
qed

lemma foldl_suggest_category:
  "foldl (suggest_category d) suggestions skills_db =
     suggestions @ concat (map (category_suggestion d) skills_db)"
  by (induction skills_db arbitrary: suggestions) (simp_all add: suggest_category_eq)

lemma absent_no_key: "set (absent d skills) \<inter> fst ` set d = {}"
  by (auto simp: absent_def)

text \<open>
  Claim C2. For every catalog and every skill-counts mapping, \<open>suggest_improvements\<close>
  returns, category after category in the order of the catalog, what the policy of the
  specification gives the category (\<open>category_suggestion\<close>, with the messages spelled
  out): the missing-category message with the first 3 entries of the category's list
  when none of the entries is a key of the counts, the sparse-category message with the
  first 2 of the entries that are not keys when exactly one entry is a key, and nothing
  when two or more entries are keys. Of no category of the catalog do the candidates of
  the sparse-category message hold a key of the counts. A message names its skills:
  every name of the list occurs in the comma-separated text that the message holds.
\<close>

theorem suggest_improvements_policy:
  "suggest_improvements skills_db skill_counts =
     concat (map (category_suggestion skill_counts) skills_db) \<and>
   (\<forall>c \<in> set skills_db.
      set (take 2 (absent skill_counts (snd c))) \<inter> fst ` set skill_counts = {}) \<and>
   (\<forall>n \<in> set names. sublist n (comma_separated names))"
proof (intro conjI ballI)
  show "suggest_improvements skills_db skill_counts =
      concat (map (category_suggestion skill_counts) skills_db)"
    by (simp add: suggest_improvements_def foldl_suggest_category)
next
  fix c
  have "set (take 2 (absent skill_counts (snd c))) \<subseteq> set (absent skill_counts (snd c))"
    by (rule set_take_subset)
  with absent_no_key [of skill_counts "snd c"]
  show "set (take 2 (absent skill_counts (snd c))) \<inter> fst ` set skill_counts = {}"
    by blast
next
  fix n
  assume "n \<in> set names"
  then show "sublist n (comma_separated names)"
    by (rule sublist_comma_separated)
qed

text \<open>
  Claim C2 at a catalog with a sparse, a missing and a covered category: the two
  messages as the strings they are.
\<close>

theorem suggest_improvements_policy_witness:
  "suggest_improvements
     [(''Programming'', [''Python'', ''Go'', ''Java'', ''R'']),
      (''Data'', [''SQL'', ''NoSQL'', ''Spark'', ''Excel'']),
      (''DevOps'', [''Docker'', ''AWS''])]
     [(''Python'', 1), (''Docker'', 1), (''AWS'', 1)] =
   [[CHR 0xE2, CHR 0x84, CHR 0xB9, CHR 0xEF, CHR 0xB8, CHR 0x8F]
      @ '' Few Programming skills. Could add: Go, Java'',
    [CHR 0xE2, CHR 0x9A, CHR 0xA0, CHR 0xEF, CHR 0xB8, CHR 0x8F]
      @ '' Missing Data skills. Consider adding: SQL, NoSQL, Spark...''] \<and>
   set (take 2 (absent [(''Python'', 1), (''Docker'', 1), (''AWS'', 1)]
      [''Python'', ''Go'', ''Java'', ''R''])) \<inter>
     fst ` set [(''Python'', 1), (''Docker'', 1), (''AWS'', 1) :: string \<times> int] = {} \<and>
   sublist ''NoSQL'' (comma_separated [''SQL'', ''NoSQL'', ''Spark''])"
proof -
  let ?db = "[(''Programming'', [''Python'', ''Go'', ''Java'', ''R'']),
      (''Data'', [''SQL'', ''NoSQL'', ''Spark'', ''Excel'']),
      (''DevOps'', [''Docker'', ''AWS''])]"
  let ?counts = "[(''Python'', 1), (''Docker'', 1), (''AWS'', 1)] :: skill_counts"
  note policy = suggest_improvements_policy [of ?db ?counts "[''SQL'', ''NoSQL'', ''Spark'']"]
  have rhs: "concat (map (category_suggestion ?counts) ?db) =
    [[CHR 0xE2, CHR 0x84, CHR 0xB9, CHR 0xEF, CHR 0xB8, CHR 0x8F]
       @ '' Few Programming skills. Could add: Go, Java'',
     [CHR 0xE2, CHR 0x9A, CHR 0xA0, CHR 0xEF, CHR 0xB8, CHR 0x8F]
       @ '' Missing Data skills. Consider adding: SQL, NoSQL, Spark...'']"
    by code_simp
  from policy have a: "suggest_improvements ?db ?counts =
      concat (map (category_suggestion ?counts) ?db)"
    by (rule conjunct1)
  from policy have "\<forall>c \<in> set ?db.
      set (take 2 (absent ?counts (snd c))) \<inter> fst ` set ?counts = {}"
    by (rule conjunct1 [OF conjunct2])
  then have b: "set (take 2 (absent ?counts [''Python'', ''Go'', ''Java'', ''R''])) \<inter>
      fst ` set ?counts = {}"
    by simp
  from policy have "\<forall>n \<in> set [''SQL'', ''NoSQL'', ''Spark''].
      sublist n (comma_separated [''SQL'', ''NoSQL'', ''Spark''])"
    by (rule conjunct2 [OF conjunct2])
  then have c: "sublist ''NoSQL'' (comma_separated [''SQL'', ''NoSQL'', ''Spark''])"
    by simp
  from a rhs b c show ?thesis
    by (simp only: simp_thms)
qed

text \<open>
  Claim C10. For every catalog, two skill-counts mappings with the same set of keys get
  the same list of suggestions: the values play no part.
\<close>

theorem suggest_improvements_keys_only:
  "keys c1 = keys c2 \<Longrightarrow> suggest_improvements skills_db c1 = suggest_improvements skills_db c2"
proof -
  assume k: "keys c1 = keys c2"
  have "category_suggestion c1 = category_suggestion c2"
    using k by (intro ext) (simp add: category_suggestion_def present_def absent_def keys_def
        split: prod.splits)
  then show ?thesis
    by (simp add: suggest_improvements_def foldl_suggest_category)
qed

text \<open>
  Claim C10 at the built-in catalog and two mappings that differ in a value only.
\<close>

theorem suggest_improvements_keys_only_witness:
  "keys [(''Python'', 1)] = keys [(''Python'', 7)] \<and>
   suggest_improvements DEFAULT_SKILLS [(''Python'', 1)] =
     suggest_improvements DEFAULT_SKILLS [(''Python'', 7)]"
proof -
  have k: "keys [(''Python'', 1)] = keys [(''Python'', 7)]"
    by (simp add: keys_def)
  from suggest_improvements_keys_only [OF k] k show ?thesis
    by simp
qed

subsection \<open>The decimal form of a count\<close>

lemma decimal_value_snoc: "decimal_value (s @ [c]) = 10 * decimal_value s + (of_char c - 48)"
  by (simp add: decimal_value_def)

lemma of_char_digit: "n < 10 \<Longrightarrow> (of_char (char_of (48 + n)) :: nat) = 48 + n"
  by (simp add: of_char_of)

lemma decimal_value_str_nat: "decimal_value (str_nat n) = n"
proof (induction n rule: str_nat.induct)
  case (1 n)
  show ?case
  proof (cases "n < 10")
    case True
    then show ?thesis
      using decimal_value_snoc [of "[]" "char_of (48 + n)"]
      by (simp add: str_nat.simps [of n] of_char_digit decimal_value_def)
  next
    case False
    have "n mod 10 < 10" by simp
    then have d: "(of_char (char_of (48 + n mod 10)) :: nat) = 48 + n mod 10"
      by (rule of_char_digit)
    from False 1 have "decimal_value (str_nat (n div 10)) = n div 10"
      by simp
    with False d show ?thesis
      by (simp add: str_nat.simps [of n] decimal_value_snoc)
  qed
qed

lemma is_digit_char_of: "(n :: nat) < 10 \<Longrightarrow> is_digit (char_of (48 + n))"
  by (simp add: is_digit_def of_char_digit)

lemma str_nat_not_Nil: "str_nat n \<noteq> []"
  by (subst str_nat.simps) simp

lemma list_all_digit_str_nat: "list_all is_digit (str_nat n)"
proof (induction n rule: str_nat.induct)
  case (1 n)
  show ?case
  proof (cases "n < 10")
    case True
    then show ?thesis
      by (simp add: str_nat.simps [of n] is_digit_char_of)
  next
    case False
    have "n mod 10 < 10" by simp
    then have "is_digit (char_of (48 + n mod 10))"
      by (rule is_digit_char_of)
    with False 1 show ?thesis
      by (simp add: str_nat.simps [of n])
  qed
qed

lemma char_of_48: "char_of (48 :: nat) = CHR ''0''"
  by code_simp

lemma hd_str_nat: "n \<noteq> 0 \<Longrightarrow> hd (str_nat n) \<noteq> CHR ''0''"
proof (induction n rule: str_nat.induct)
  case (1 n)
  show ?case
  proof (cases "n < 10")
    case True
    have "(of_char (char_of (48 + n)) :: nat) = 48 + n"
      using True by (rule of_char_digit)
    moreover have "(of_char (CHR ''0'') :: nat) = 48"
      by simp
    ultimately have "char_of (48 + n) \<noteq> CHR ''0''"
      using "1.prems" by (metis add_cancel_right_right)
    with True show ?thesis
      by (simp add: str_nat.simps [of n])
  next
    case False
    then have "n div 10 \<noteq> 0"
      by simp
    with False 1 have "hd (str_nat (n div 10)) \<noteq> CHR ''0''"
      by simp
    with False show ?thesis
      by (simp add: str_nat.simps [of n] str_nat_not_Nil)
  qed
qed

lemma decimal_form_str_nat: "decimal_form (str_nat n) n"
proof (cases "n = 0")
  case True
  then have "str_nat n = ''0''"
    by (simp add: str_nat.simps [of 0] char_of_48)
  with True show ?thesis
    using decimal_value_str_nat [of 0]
    by (simp add: decimal_form_def is_digit_def)
next
  case False
  then show ?thesis
    by (simp add: decimal_form_def str_nat_not_Nil list_all_digit_str_nat
        decimal_value_str_nat hd_str_nat)
qed

lemma decimal_form_str_int: "decimal_form (str_int (int k)) k"
  by (simp add: str_int_def decimal_form_str_nat)

lemma str_int_negative: "str_int (- int (Suc k)) = ''-'' @ str_int (int (Suc k))"
proof -
  have "nat (- (- int (Suc k))) = nat (int (Suc k))"
    by simp
  then show ?thesis
    unfolding str_int_def by simp
qed

subsection \<open>Claims about generate\_report\<close>

lemma key_le_iff_report_order:
  "(- snd x, fst x) \<le> (- snd y, fst y) \<longleftrightarrow> report_order x y"
  by (auto simp: report_order_def less_eq_prod_def)

lemma sorted_wrt_sort_key_report_order:
  "sorted_wrt report_order (sort_key (\<lambda>x. (- snd x, fst x)) d)"
proof -
  have eq: "(\<lambda>x y. (- snd x, fst x) \<le> (- snd y, fst y)) = report_order"
    by (intro ext) (rule key_le_iff_report_order)
  have "sorted (map (\<lambda>x. (- snd x, fst x)) (sort_key (\<lambda>x. (- snd x, fst x)) d))"
    by (rule sorted_sort_key)
  then have "sorted_wrt (\<lambda>x y. (- snd x, fst x) \<le> (- snd y, fst y))
      (sort_key (\<lambda>x. (- snd x, fst x)) d)"
    by (simp only: sorted_map)
  then show ?thesis
    by (simp only: eq)
qed

lemma join_newline:
  "join ''\<newline>'' (x # xs) = x @ concat (map (\<lambda>l. ''\<newline>'' @ l) xs)"
  by (rule join_Cons)

lemma rendered_skill_report_line: "rendered_skill x = ''\<newline>'' @ report_line x"
  by (cases x) (simp add: rendered_skill_def report_line_def BULLET_def)

lemma concat_skill_lines:
  "concat (map (\<lambda>l. ''\<newline>'' @ l) (skill_lines d)) =
     (if d = [] then ''\<newline>No skills detected from the database''
      else concat (map rendered_skill (sort_key (\<lambda>x. (- snd x, fst x)) d)))"
proof (cases "d = []")
  case True
  then show ?thesis
    by (simp add: skill_lines_def NO_SKILLS_def)
next
  case False
  have m: "map (\<lambda>l. ''\<newline>'' @ l) (map report_line xs) = map rendered_skill xs" for xs
    by (induction xs) (simp_all add: rendered_skill_report_line)
  from False have "skill_lines d = map report_line (sort_key (\<lambda>x. (- snd x, fst x)) d)"
    by (simp add: skill_lines_def sorted_items_def)
  with False show ?thesis
    by (simp only: m if_False)
qed

lemma concat_suggestion_lines:
  "concat (map (\<lambda>l. ''\<newline>'' @ l) (suggestion_lines suggestions)) =
     rendered_suggestions suggestions"
  by (simp add: suggestion_lines_def rendered_suggestions_def SUGGESTIONS_HEADER_def
      GOOD_JOB_def CHECK_MARK_def)

lemma generate_report_spelled:
  "generate_report skill_counts suggestions =
     ''\<newline>=== SKILL ANALYSIS ==='' @
     (if skill_counts = [] then ''\<newline>No skills detected from the database''
      else concat (map rendered_skill (sort_key (\<lambda>x. (- snd x, fst x)) skill_counts))) @
     rendered_suggestions suggestions"
proof -
  have "generate_report skill_counts suggestions =
      HEADER @ concat (map (\<lambda>l. ''\<newline>'' @ l)
        (skill_lines skill_counts @ suggestion_lines suggestions))"
    by (simp only: generate_report_def report_lines_def append_Cons append_Nil join_newline)
  also have "\<dots> = HEADER @ concat (map (\<lambda>l. ''\<newline>'' @ l) (skill_lines skill_counts)) @
      concat (map (\<lambda>l. ''\<newline>'' @ l) (suggestion_lines suggestions))"
    by simp
  finally show ?thesis
    by (simp only: concat_skill_lines concat_suggestion_lines HEADER_def)
qed

text \<open>
  Claim C4. For every counts mapping and every list of suggestions, the string returned
  is the header, then one line per entry of the counts, each after a newline (or the one
  line \<open>No skills detected from the database\<close> when there is no entry), then the
  suggestion part. The lines are those of the entries of the counts, each once
  (\<open>mset\<close>), in the order of the specification: the larger count first, and for equal
  counts the smaller name first (\<open>report_order\<close>). A line (\<open>rendered_skill\<close>) is the
  bullet, the skill name, a colon, the count in decimal and the word \<open>mention\<close>, with an
  \<open>s\<close> exactly when the count is greater than 1. The count is written in its decimal
  form (\<open>decimal_form\<close>), after a minus sign when it is negative.
\<close>

theorem generate_report_skill_lines:
  "generate_report skill_counts suggestions =
     ''\<newline>=== SKILL ANALYSIS ==='' @
     (if skill_counts = [] then ''\<newline>No skills detected from the database''
      else concat (map rendered_skill (sort_key (\<lambda>x. (- snd x, fst x)) skill_counts))) @
     rendered_suggestions suggestions \<and>
   mset (sort_key (\<lambda>x. (- snd x, fst x)) skill_counts) = mset skill_counts \<and>
   sorted_wrt report_order (sort_key (\<lambda>x. (- snd x, fst x)) skill_counts) \<and>
   decimal_form (str_int (int k)) k \<and>
   str_int (- int (Suc k)) = ''-'' @ str_int (int (Suc k))"
  using generate_report_spelled [of skill_counts suggestions]
    sorted_wrt_sort_key_report_order [of skill_counts] decimal_form_str_int [of k]
    str_int_negative [of k]
  by (simp only: mset_sort simp_thms)

text \<open>
  Claim C4 at three entries, two of them with equal counts: the string returned, byte
  for byte.
\<close>

theorem generate_report_skill_lines_witness:
  "generate_report [(''Go'', 1), (''SQL'', 12), (''AWS'', 1)] [] =
     ''\<newline>=== SKILL ANALYSIS ===\<newline>'' @
     [CHR 0xE2, CHR 0x80, CHR 0xA2] @ '' SQL: 12 mentions\<newline>'' @
     [CHR 0xE2, CHR 0x80, CHR 0xA2] @ '' AWS: 1 mention\<newline>'' @
     [CHR 0xE2, CHR 0x80, CHR 0xA2] @ '' Go: 1 mention\<newline>\<newline>'' @
     [CHR 0xE2, CHR 0x9C, CHR 0x85] @ '' Good job! Your resume covers diverse skill categories.'' \<and>
   sorted_wrt report_order (sort_key (\<lambda>x. (- snd x, fst x)) [(''Go'', 1), (''SQL'', 12), (''AWS'', 1)]) \<and>
   sort_key (\<lambda>x. (- snd x, fst x)) [(''Go'', 1), (''SQL'', 12), (''AWS'', 1) :: string \<times> int] =
     [(''SQL'', 12), (''AWS'', 1), (''Go'', 1)] \<and>
   decimal_form (str_int (int 12)) 12 \<and>
   str_int (int 12) = ''12'' \<and>
   str_int (- int (Suc 12)) = ''-13''"
proof -
  let ?counts = "[(''Go'', 1), (''SQL'', 12), (''AWS'', 1)] :: skill_counts"
  note report = generate_report_skill_lines [of ?counts "[]" 12]
  have rhs: "''\<newline>=== SKILL ANALYSIS ==='' @
     (if ?counts = [] then ''\<newline>No skills detected from the database''
      else concat (map rendered_skill (sort_key (\<lambda>x. (- snd x, fst x)) ?counts))) @
     rendered_suggestions [] =
     ''\<newline>=== SKILL ANALYSIS ===\<newline>'' @
     [CHR 0xE2, CHR 0x80, CHR 0xA2] @ '' SQL: 12 mentions\<newline>'' @
     [CHR 0xE2, CHR 0x80, CHR 0xA2] @ '' AWS: 1 mention\<newline>'' @
     [CHR 0xE2, CHR 0x80, CHR 0xA2] @ '' Go: 1 mention\<newline>\<newline>'' @
     [CHR 0xE2, CHR 0x9C, CHR 0x85] @ '' Good job! Your resume covers diverse skill categories.''"
    by code_simp
  have s: "sort_key (\<lambda>x. (- snd x, fst x)) ?counts = [(''SQL'', 12), (''AWS'', 1), (''Go'', 1)]"
    by code_simp
  from report have a: "generate_report ?counts [] =
     ''\<newline>=== SKILL ANALYSIS ==='' @
     (if ?counts = [] then ''\<newline>No skills detected from the database''
      else concat (map rendered_skill (sort_key (\<lambda>x. (- snd x, fst x)) ?counts))) @
     rendered_suggestions []"
    by (rule conjunct1)
  from report have b: "sorted_wrt report_order (sort_key (\<lambda>x. (- snd x, fst x)) ?counts)"
    by (rule conjunct1 [OF conjunct2 [OF conjunct2]])
  from report have c: "decimal_form (str_int (int 12)) 12"
    by (rule conjunct1 [OF conjunct2 [OF conjunct2 [OF conjunct2]]])
  have d: "str_int (int 12) = ''12''"
    by code_simp
  from report have "str_int (- int (Suc 12)) = ''-'' @ str_int (int (Suc 12))"
    by (rule conjunct2 [OF conjunct2 [OF conjunct2 [OF conjunct2]]])
  moreover have "str_int (int (Suc 12)) = ''13''"
    by code_simp
  ultimately have e: "str_int (- int (Suc 12)) = ''-13''"
    by simp
  from a rhs have "generate_report ?counts [] =
     ''\<newline>=== SKILL ANALYSIS ===\<newline>'' @
     [CHR 0xE2, CHR 0x80, CHR 0xA2] @ '' SQL: 12 mentions\<newline>'' @
     [CHR 0xE2, CHR 0x80, CHR 0xA2] @ '' AWS: 1 mention\<newline>'' @
     [CHR 0xE2, CHR 0x80, CHR 0xA2] @ '' Go: 1 mention\<newline>\<newline>'' @
     [CHR 0xE2, CHR 0x9C, CHR 0x85] @ '' Good job! Your resume covers diverse skill categories.''"
    by (rule trans)
  with b s c d e show ?thesis
    by (simp only: simp_thms)
qed

text \<open>
  Claim C9. With no counts and no suggestions the report is the header, the line
  \<open>No skills detected from the database\<close> and the congratulatory line; both lines are
  parts of the string returned.
\<close>

theorem generate_report_empty:
  "report_lines [] [] = [HEADER, NO_SKILLS, GOOD_JOB] \<and>
   generate_report [] [] =
     ''\<newline>=== SKILL ANALYSIS ===\<newline>No skills detected from the database\<newline>\<newline>''
       @ CHECK_MARK @ '' Good job! Your resume covers diverse skill categories.'' \<and>
   sublist NO_SKILLS (generate_report [] []) \<and>
   sublist GOOD_JOB (generate_report [] [])"
proof -
  have l: "report_lines [] [] = [HEADER, NO_SKILLS, GOOD_JOB]"
    by (simp add: report_lines_def skill_lines_def suggestion_lines_def)
  then have g: "generate_report [] [] = HEADER @ ''\<newline>'' @ NO_SKILLS @ ''\<newline>'' @ GOOD_JOB"
    by (simp add: generate_report_def)
  have "sublist NO_SKILLS ((HEADER @ ''\<newline>'') @ NO_SKILLS @ (''\<newline>'' @ GOOD_JOB))"
    by (rule sublist_appendI)
  then have n: "sublist NO_SKILLS (generate_report [] [])"
    by (simp add: g)
  have "sublist GOOD_JOB ((HEADER @ ''\<newline>'' @ NO_SKILLS @ ''\<newline>'') @ GOOD_JOB)"
    by (rule sublist_append_leftI)
  then have c: "sublist GOOD_JOB (generate_report [] [])"
    by (simp add: g)
  have "generate_report [] [] =
     ''\<newline>=== SKILL ANALYSIS ===\<newline>No skills detected from the database\<newline>\<newline>''
       @ CHECK_MARK @ '' Good job! Your resume covers diverse skill categories.''"
    by (simp add: g HEADER_def NO_SKILLS_def GOOD_JOB_def)
  with l n c show ?thesis
    by (simp only: simp_thms)
qed

subsection \<open>Claims about extract\_text\<close>

text \<open>
  Claim C6. For every path that does not exist, \<open>extract_text\<close> fails with
  \<open>FileNotFoundError\<close>, the message naming the path, and the one call it has made is
  the existence check: PyMuPDF has not been asked to open anything.
\<close>

theorem extract_text_missing_path:
  "\<not> path_exists w pdf_path \<Longrightarrow>
     extract_text w pdf_path =
       (Inl (FileNotFoundError (''File not found: '' @ pdf_path)), [Exists pdf_path]) \<and>
     FitzOpen pdf_path \<notin> set (snd (extract_text w pdf_path))"
  by (simp add: extract_text_def)

text \<open>
  Claim C6 at a path the example environment does not hold.
\<close>

theorem extract_text_missing_path_witness:
  "\<not> path_exists example_world ''cv.pdf'' \<and>
   extract_text example_world ''cv.pdf'' =
     (Inl (FileNotFoundError ''File not found: cv.pdf''), [Exists ''cv.pdf'']) \<and>
   FitzOpen ''cv.pdf'' \<notin> set (snd (extract_text example_world ''cv.pdf''))"
proof -
  have h: "\<not> path_exists example_world ''cv.pdf''"
    by (simp add: example_world_def)
  from extract_text_missing_path [OF h] h show ?thesis
    by simp
qed

text \<open>
  For comparison, a path that exists: the pages are read, joined and lowercased.
\<close>

lemma extract_text_existing_path:
  "extract_text example_world ''resume.pdf'' =
     (Inr ''python developer sql and go'', [Exists ''resume.pdf'', FitzOpen ''resume.pdf''])"
  by code_simp

subsection \<open>Claims about loading the catalog\<close>




lemma is_catalog_catalog_json: "is_catalog (catalog_json skills_db)"
  by (auto simp: catalog_json_def list_all_iff)









lemma is_catalog_analyzable: "is_catalog v \<Longrightarrow> analyzable v"
proof (cases v)
  case (JObj kvs)
  assume "is_catalog v"
  moreover have "is_skill_list u \<Longrightarrow> walkable u" for u
    by (cases u) simp_all
  ultimately show ?thesis
    by (auto simp: JObj list_all_iff)
qed simp_all




text \<open>
  A value of the wrong shape that the analysis gets through: the string in the place of
  a list is walked character by character, and the characters are counted as skills.
\<close>

lemma analyzable_not_catalog:
  "\<not> is_catalog (JObj [(''Programming'', JStr ''Go'')]) \<and>
   analyzable (JObj [(''Programming'', JStr ''Go'')]) \<and>
   analyze_skills_dyn lower (JObj [(''Programming'', JStr ''Go'')]) ''golang'' =
     Inr [(''G'', 1), (''o'', 1)]"
  by code_simp

text \<open>The characters of a string are its code points, not its bytes.\<close>

lemma code_points_example:
  "code_points (''caf'' @ [CHR 0xC3, CHR 0xA9] @ ''s'') =
     [''c'', ''a'', ''f'', [CHR 0xC3, CHR 0xA9], ''s'']"
  by code_simp

subsection \<open>The scenarios of the specification\<close>

text \<open>
  Where a category names no skill twice, as the data model of the specification asks,
  the number of entries that are keys is the number of skills that are keys.
\<close>

lemma present_distinct:
  "distinct skills \<Longrightarrow> present d skills = card (set skills \<inter> fst ` set d)"
proof -
  assume "distinct skills"
  then have "distinct (filter (\<lambda>s. s \<in> fst ` set d) skills)"
    by (rule distinct_filter)
  then have "card (set (filter (\<lambda>s. s \<in> fst ` set d) skills)) =
      length (filter (\<lambda>s. s \<in> fst ` set d) skills)"
    by (rule distinct_card)
  moreover have "set (filter (\<lambda>s. s \<in> fst ` set d) skills) = set skills \<inter> fst ` set d"
    by auto
  ultimately show ?thesis
    by (simp only: present_def)
qed

text \<open>Scenario 1: \<open>go\<close> is a substring of \<open>golang\<close>, so both skills are counted.\<close>

lemma scenario_1:
  "analyze_skills [(''Programming'', [''Python'', ''Go''])] ''i used python and golang'' =
     [(''Python'', 1), (''Go'', 1)]"
  by code_simp

text \<open>Scenario 2: nothing matches, and the one category is reported missing.\<close>

lemma scenario_2:
  "analyze_skills [(''Programming'', [''Python'', ''Go''])] ''i write code'' = [] \<and>
   suggest_improvements [(''Programming'', [''Python'', ''Go''])] [] =
     [WARNING_SIGN @ '' Missing Programming skills. Consider adding: Python, Go...'']"
  by code_simp

text \<open>Scenario 3: one skill of three is found, and the two others are proposed.\<close>

lemma scenario_3:
  "suggest_improvements [(''Data'', [''SQL'', ''Spark'', ''Excel''])]
     (analyze_skills [(''Data'', [''SQL'', ''Spark'', ''Excel''])] ''ten years of spark'') =
     [INFO_SIGN @ '' Few Data skills. Could add: SQL, Excel'']"
  by code_simp

end
